theory Spec2Isabelle
  imports Complex_Main "HOL-Library.Sublist"
begin

section \<open>Values exchanged with the storefront\<close>

text \<open>
  The client of \<^verbatim>\<open>epic.py\<close> reads every HTTP body with \<^verbatim>\<open>response.json()\<close> and
  navigates it with \<^verbatim>\<open>dict.get\<close>. A parsed body is a value of \<open>json\<close>. An object is the
  association list of its members (keys distinct, as \<^verbatim>\<open>json.loads\<close> produces them);
  Python's \<^verbatim>\<open>None\<close> is \<open>JNull\<close>. Numbers, the clock included, are exact rationals.
\<close>

datatype json =
    JNull
  | JBool bool
  | JNum rat
  | JStr string
  | JList "json list"
  | JObj "(string \<times> json) list"

text \<open>The exceptions the client's \<^verbatim>\<open>try\<close> blocks can catch.\<close>

datatype py_error =
    AttributeError
  | TypeError
  | IndexError
  | JSONDecodeError
  | RequestException

text \<open>Truth value of a Python object, as \<^verbatim>\<open>if x:\<close>, \<^verbatim>\<open>not x\<close> and \<^verbatim>\<open>all([...])\<close> test it.\<close>

fun py_truthy :: "json \<Rightarrow> bool" where
  "py_truthy JNull = False"
| "py_truthy (JBool b) = b"
| "py_truthy (JNum n) = (n \<noteq> 0)"
| "py_truthy (JStr s) = (s \<noteq> [])"
| "py_truthy (JList xs) = (xs \<noteq> [])"
| "py_truthy (JObj kvs) = (kvs \<noteq> [])"

text \<open>
  Python's \<^verbatim>\<open>==\<close> on parsed JSON: \<^verbatim>\<open>True == 1\<close> and \<^verbatim>\<open>False == 0\<close> hold, lists are
  compared element by element, dictionaries key by key whatever their order, and values
  of different kinds are unequal.
\<close>

fun py_eq :: "json \<Rightarrow> json \<Rightarrow> bool" where
  "py_eq JNull JNull = True"
| "py_eq (JBool a) (JBool b) = (a = b)"
| "py_eq (JBool a) (JNum n) = (n = of_bool a)"
| "py_eq (JNum n) (JBool a) = (n = of_bool a)"
| "py_eq (JNum m) (JNum n) = (m = n)"
| "py_eq (JStr s) (JStr t) = (s = t)"
| "py_eq (JList xs) (JList ys) = list_all2 py_eq xs ys"
| "py_eq (JObj a) (JObj b) =
     (set (map fst a) = set (map fst b) \<and>
      (\<forall>(k, v) \<in> set a. \<forall>(k', w) \<in> set b. k = k' \<longrightarrow> py_eq v w))"
| "py_eq _ _ = False"

text \<open>\<^verbatim>\<open>x in xs\<close> for a list \<open>xs\<close>.\<close>

definition py_in :: "json \<Rightarrow> json list \<Rightarrow> bool" where
  "py_in x xs = list_ex (py_eq x) xs"

text \<open>
  \<^verbatim>\<open>d.get(k, default)\<close>. Only a dictionary has \<^verbatim>\<open>get\<close>: on \<^verbatim>\<open>None\<close>, a number, a
  string or a list the attribute lookup raises. A key that is present with the value
  \<^verbatim>\<open>null\<close> yields \<open>JNull\<close>, not the default.
\<close>

fun py_get :: "json \<Rightarrow> string \<Rightarrow> json \<Rightarrow> py_error + json" where
  "py_get (JObj kvs) k d = (case map_of kvs k of Some v \<Rightarrow> Inr v | None \<Rightarrow> Inr d)"
| "py_get _ k d = Inl AttributeError"

text \<open>Sequencing inside a \<^verbatim>\<open>try\<close> block: the first exception ends it.\<close>

fun py_then :: "py_error + 'a \<Rightarrow> ('a \<Rightarrow> py_error + 'b) \<Rightarrow> py_error + 'b" where
  "py_then (Inl e) f = Inl e"
| "py_then (Inr x) f = f x"

text \<open>\<^verbatim>\<open>time.time() + x\<close>: defined on numbers (a \<^verbatim>\<open>bool\<close> is one), a \<^verbatim>\<open>TypeError\<close> otherwise.\<close>

fun py_time_plus :: "rat \<Rightarrow> json \<Rightarrow> py_error + rat" where
  "py_time_plus t (JNum n) = Inr (t + n)"
| "py_time_plus t (JBool b) = Inr (t + of_bool b)"
| "py_time_plus t _ = Inl TypeError"

text \<open>
  \<^verbatim>\<open>for item in x\<close>: a list yields its elements, a string its characters, a dictionary
  its keys; nothing else is iterable.
\<close>

fun py_iter :: "json \<Rightarrow> py_error + json list" where
  "py_iter (JList xs) = Inr xs"
| "py_iter (JStr s) = Inr (map (\<lambda>c. JStr [c]) s)"
| "py_iter (JObj kvs) = Inr (map (\<lambda>kv. JStr (fst kv)) kvs)"
| "py_iter _ = Inl TypeError"

text \<open>
  \<^verbatim>\<open>s.split(sep)\<close> for a non-empty separator: the pieces between the non-overlapping
  occurrences of \<open>sep\<close>, scanned from the left. \<open>acc\<close> is the current piece, reversed.
\<close>

function py_split_from :: "string \<Rightarrow> string \<Rightarrow> string \<Rightarrow> string list" where
  "py_split_from sep acc [] = [rev acc]"
| "py_split_from sep acc (c # cs) =
     (if sep \<noteq> [] \<and> prefix sep (c # cs)
      then rev acc # py_split_from sep [] (drop (length sep) (c # cs))
      else py_split_from sep (c # acc) cs)"
  by pat_completeness auto
termination
  by (relation "measure (\<lambda>(sep, acc, s). length s)") auto

definition py_split :: "string \<Rightarrow> string \<Rightarrow> string list" where
  "py_split sep s = py_split_from sep [] s"

section \<open>The client and its surroundings\<close>

text \<open>
  A request of \<^verbatim>\<open>self.session\<close>: \<^verbatim>\<open>post(url, json=...)\<close> or \<^verbatim>\<open>get(url, params=...)\<close>.
  The reply either raises (transport failure) or carries a status code and a body;
  the body is \<open>None\<close> when \<^verbatim>\<open>response.json()\<close> raises on it.
\<close>

datatype request =
    Post string json
  | Get string "(string \<times> string) list"

datatype http_reply =
    Raises
  | Reply int "json option"

text \<open>
  Writing a file is \<^verbatim>\<open>open(path, 'w')\<close> followed by \<^verbatim>\<open>json.dump\<close>. Opening may
  raise, and then the file is as it was. Opening for writing empties the file, so when
  the dump raises after it the file is left truncated: it holds at most a beginning of
  the new text. A file is missing, holds a value written in full, or is truncated.
\<close>

datatype write_result =
    Written
  | Open_raises
  | Dump_raises

datatype 'a stored =
    Missing
  | Holds 'a
  | Truncated

text \<open>
  What one call of an operation meets outside the process: the server's answer to each
  request, the reading of \<^verbatim>\<open>time.time()\<close>, and how writing a file goes
  (\<^verbatim>\<open>_save_session\<close> and \<^verbatim>\<open>_save_claimed_games\<close> catch and log a failed write).
\<close>

record env =
  net :: "request \<Rightarrow> http_reply"
  now :: rat
  fs_write :: write_result

text \<open>
  \<^verbatim>\<open>EpicGamesClient\<close>: the four credential fields, the claimed-games list, the
  \<^verbatim>\<open>Authorization\<close> header of the session (the token it carries), the two files under
  \<^verbatim>\<open>data_dir\<close>, and the requests sent so far, oldest first.
\<close>

record client =
  access_token :: json
  refresh_token :: json
  account_id :: json
  expires_at :: rat
  claimed_games :: "json list"
  authorization :: "json option"
  session_file :: "(json \<times> json \<times> json \<times> rat) stored"
  claimed_games_file :: "json list stored"
  requests :: "request list"

text \<open>
  A game dictionary as \<^verbatim>\<open>get_free_games\<close> builds it and \<^verbatim>\<open>claim_game\<close> reads it with
  \<^verbatim>\<open>game.get\<close>: a missing key and the value \<^verbatim>\<open>None\<close> are both \<open>JNull\<close>. The
  \<^verbatim>\<open>'url'\<close> entry is the fixed store prefix followed by the entry's \<^verbatim>\<open>urlSlug\<close>; the
  record keeps the slug.
\<close>

record game =
  game_id :: json
  title :: json
  namespace :: json
  description :: json
  url_slug :: json

definition LOGIN_URL :: string where
  "LOGIN_URL = ''https://www.epicgames.com/id/api/login''"

definition REDIRECT_URL :: string where
  "REDIRECT_URL = ''https://www.epicgames.com/id/api/redirect''"

definition OAUTH_URL :: string where
  "OAUTH_URL = ''https://www.epicgames.com/id/api/oauth''"

definition GRAPHQL_URL :: string where
  "GRAPHQL_URL = ''https://graphql.epicgames.com/graphql''"

definition FREE_GAMES_URL :: string where
  "FREE_GAMES_URL = ''https://store-content.ak.epicgames.com/api/content/assets/v2/freegames''"

definition CLIENT_ID :: string where
  "CLIENT_ID = ''875a3b57d3a640a6b7f9b4e883463ab4''"

definition send :: "request \<Rightarrow> client \<Rightarrow> client" where
  "send r s = s\<lparr>requests := requests s @ [r]\<rparr>"

text \<open>\<^verbatim>\<open>__init__\<close> with an empty \<^verbatim>\<open>data_dir\<close>: no session, nothing claimed.\<close>

definition init_client :: client where
  "init_client =
     \<lparr>access_token = JNull, refresh_token = JNull, account_id = JNull, expires_at = 0,
      claimed_games = [], authorization = None, session_file = Missing,
      claimed_games_file = Missing, requests = []\<rparr>"

section \<open>Persistence and token refresh\<close>

text \<open>
  \<^verbatim>\<open>_save_session\<close> and \<^verbatim>\<open>_save_claimed_games\<close> write the file inside a \<^verbatim>\<open>try\<close> and
  log an exception instead of raising it.
\<close>

definition save_session :: "env \<Rightarrow> client \<Rightarrow> client" where
  "save_session e s =
     (case fs_write e of
        Written \<Rightarrow>
          s\<lparr>session_file :=
              Holds (access_token s, refresh_token s, account_id s, expires_at s)\<rparr>
      | Open_raises \<Rightarrow> s
      | Dump_raises \<Rightarrow> s\<lparr>session_file := Truncated\<rparr>)"

definition save_claimed_games :: "env \<Rightarrow> client \<Rightarrow> client" where
  "save_claimed_games e s =
     (case fs_write e of
        Written \<Rightarrow> s\<lparr>claimed_games_file := Holds (claimed_games s)\<rparr>
      | Open_raises \<Rightarrow> s
      | Dump_raises \<Rightarrow> s\<lparr>claimed_games_file := Truncated\<rparr>)"

definition is_token_expired :: "env \<Rightarrow> client \<Rightarrow> bool" where
  "is_token_expired e s = (now e \<ge> expires_at s - 300)"

definition refresh_request :: "client \<Rightarrow> request" where
  "refresh_request s =
     Post (OAUTH_URL @ ''/token'')
       (JObj [(''grant_type'', JStr ''refresh_token''),
              (''refresh_token'', refresh_token s),
              (''client_id'', JStr CLIENT_ID)])"

text \<open>
  \<^verbatim>\<open>_refresh_access_token\<close>. The fields are assigned one statement at a time inside
  the \<^verbatim>\<open>try\<close>, so an exception leaves the assignments made before it.
\<close>

definition refresh_access_token :: "env \<Rightarrow> client \<Rightarrow> bool \<times> client" where
  "refresh_access_token e s =
     (if \<not> py_truthy (refresh_token s) then (False, s)
      else
        let s1 = send (refresh_request s) s in
        case net e (refresh_request s) of
          Raises \<Rightarrow> (False, s1)
        | Reply status body \<Rightarrow>
            if status = 200 then
              (case body of
                 None \<Rightarrow> (False, s1)
               | Some token_data \<Rightarrow>
                   (case py_get token_data ''access_token'' JNull of
                      Inl _ \<Rightarrow> (False, s1)
                    | Inr a \<Rightarrow>
                        let s2 = s1\<lparr>access_token := a\<rparr> in
                        (case py_get token_data ''refresh_token'' JNull of
                           Inl _ \<Rightarrow> (False, s2)
                         | Inr r \<Rightarrow>
                             let s3 = s2\<lparr>refresh_token := r\<rparr> in
                             (case py_then (py_get token_data ''expires_in'' (JNum 28800))
                                     (py_time_plus (now e)) of
                                Inl _ \<Rightarrow> (False, s3)
                              | Inr t \<Rightarrow>
                                  (True,
                                   save_session e
                                     (s3\<lparr>expires_at := t, authorization := Some a\<rparr>))))))
            else (False, s1))"

definition ensure_authenticated :: "env \<Rightarrow> client \<Rightarrow> bool \<times> client" where
  "ensure_authenticated e s =
     (if \<not> py_truthy (access_token s) then (False, s)
      else if is_token_expired e s then refresh_access_token e s
      else (True, s))"

section \<open>Login\<close>

definition login_request :: "string \<Rightarrow> string \<Rightarrow> request" where
  "login_request username password =
     Post LOGIN_URL
       (JObj [(''email'', JStr username), (''password'', JStr password),
              (''rememberMe'', JBool True), (''captcha'', JNull)])"

definition token_request :: "string \<Rightarrow> request" where
  "token_request code =
     Post (OAUTH_URL @ ''/token'')
       (JObj [(''grant_type'', JStr ''authorization_code''),
              (''code'', JStr code),
              (''client_id'', JStr CLIENT_ID)])"

text \<open>
  \<^verbatim>\<open>redirect_data.get('redirectUrl', '').split('code=')[1].split('&')[0]\<close>: the
  attribute \<^verbatim>\<open>split\<close> exists on strings only, and the index \<open>1\<close> is out of range when
  the URL has no \<^verbatim>\<open>code=\<close>.
\<close>

definition extract_code :: "json \<Rightarrow> py_error + string" where
  "extract_code redirect_data =
     py_then (py_get redirect_data ''redirectUrl'' (JStr []))
       (\<lambda>u. case u of
          JStr url \<Rightarrow>
            (case py_split ''code='' url of
               _ # part # _ \<Rightarrow>
                 (case py_split ''&'' part of
                    code # _ \<Rightarrow> Inr code
                  | [] \<Rightarrow> Inl IndexError)
             | _ \<Rightarrow> Inl IndexError)
        | _ \<Rightarrow> Inl AttributeError)"

text \<open>
  \<^verbatim>\<open>login\<close> returns the pair \<^verbatim>\<open>(success, 2fa_method)\<close>: \<open>(True, JNull)\<close> after the
  tokens are stored, \<open>(False, method)\<close> when the provider asks for a second factor,
  \<open>(False, JNull)\<close> on every failure. As in the refresh, the three token fields are
  assigned before \<^verbatim>\<open>expires_at\<close> is computed.
\<close>

definition login :: "env \<Rightarrow> string \<Rightarrow> string \<Rightarrow> client \<Rightarrow> (bool \<times> json) \<times> client" where
  "login e username password s =
     (let s1 = send (login_request username password) s in
      case net e (login_request username password) of
        Raises \<Rightarrow> ((False, JNull), s1)
      | Reply status body \<Rightarrow>
          if status = 200 then
            (case body of
               None \<Rightarrow> ((False, JNull), s1)
             | Some login_response \<Rightarrow>
                 (case py_get login_response ''twoFactorRequired'' (JBool False) of
                    Inl _ \<Rightarrow> ((False, JNull), s1)
                  | Inr tfr \<Rightarrow>
                      if py_truthy tfr then
                        (case py_get login_response ''method'' JNull of
                           Inl _ \<Rightarrow> ((False, JNull), s1)
                         | Inr m \<Rightarrow> ((False, m), s1))
                      else
                        let s2 = send (Get REDIRECT_URL []) s1 in
                        (case net e (Get REDIRECT_URL []) of
                           Raises \<Rightarrow> ((False, JNull), s2)
                         | Reply status2 body2 \<Rightarrow>
                             if status2 = 200 then
                               (case body2 of
                                  None \<Rightarrow> ((False, JNull), s2)
                                | Some redirect_data \<Rightarrow>
                                    (case extract_code redirect_data of
                                       Inl _ \<Rightarrow> ((False, JNull), s2)
                                     | Inr code \<Rightarrow>
                                         let s3 = send (token_request code) s2 in
                                         (case net e (token_request code) of
                                            Raises \<Rightarrow> ((False, JNull), s3)
                                          | Reply status3 body3 \<Rightarrow>
                                              if status3 = 200 then
                                                (case body3 of
                                                   None \<Rightarrow> ((False, JNull), s3)
                                                 | Some token_info \<Rightarrow>
  (case py_get token_info ''access_token'' JNull of
     Inl _ \<Rightarrow> ((False, JNull), s3)
   | Inr a \<Rightarrow>
       let s4 = s3\<lparr>access_token := a\<rparr> in
       (case py_get token_info ''refresh_token'' JNull of
          Inl _ \<Rightarrow> ((False, JNull), s4)
        | Inr r \<Rightarrow>
            let s5 = s4\<lparr>refresh_token := r\<rparr> in
            (case py_get token_info ''account_id'' JNull of
               Inl _ \<Rightarrow> ((False, JNull), s5)
             | Inr acc \<Rightarrow>
                 let s6 = s5\<lparr>account_id := acc\<rparr> in
                 (case py_then (py_get token_info ''expires_in'' (JNum 28800))
                         (py_time_plus (now e)) of
                    Inl _ \<Rightarrow> ((False, JNull), s6)
                  | Inr t \<Rightarrow>
                      ((True, JNull),
                       save_session e
                         (s6\<lparr>expires_at := t, authorization := Some a\<rparr>)))))))
                                              else ((False, JNull), s3))))
                             else ((False, JNull), s2))))
          else ((False, JNull), s1))"

section \<open>Catalog query\<close>

definition free_games_request :: request where
  "free_games_request =
     Get FREE_GAMES_URL
       [(''locale'', ''en-US''), (''country'', ''US''), (''allowCountries'', ''US'')]"

text \<open>
  \<^verbatim>\<open>data.get('data', {}).get('Catalog', {}).get('searchStore', {}).get('elements', [])\<close>
\<close>

definition catalog_elements :: "json \<Rightarrow> py_error + json" where
  "catalog_elements data =
     py_then (py_get data ''data'' (JObj []))
       (\<lambda>d. py_then (py_get d ''Catalog'' (JObj []))
          (\<lambda>c. py_then (py_get c ''searchStore'' (JObj []))
             (\<lambda>ss. py_get ss ''elements'' (JList []))))"

text \<open>
  \<^verbatim>\<open>item.get('price', {}).get('totalPrice', {}).get('discountPrice', 0)\<close>
\<close>

definition discount_price :: "json \<Rightarrow> py_error + json" where
  "discount_price item =
     py_then (py_get item ''price'' (JObj []))
       (\<lambda>p. py_then (py_get p ''totalPrice'' (JObj []))
          (\<lambda>tp. py_get tp ''discountPrice'' (JNum 0)))"

text \<open>The dictionary appended to \<^verbatim>\<open>free_games\<close> for a catalog entry.\<close>

definition game_of_item :: "json \<Rightarrow> py_error + game" where
  "game_of_item item =
     py_then (py_get item ''id'' JNull)
       (\<lambda>i. py_then (py_get item ''title'' (JStr ''Unknown Game''))
          (\<lambda>t. py_then (py_get item ''namespace'' JNull)
             (\<lambda>n. py_then (py_get item ''description'' JNull)
                (\<lambda>d. py_then (py_get item ''urlSlug'' JNull)
                   (\<lambda>u. Inr \<lparr>game_id = i, title = t, namespace = n,
                               description = d, url_slug = u\<rparr>)))))"

text \<open>
  The body of the \<^verbatim>\<open>for\<close> loop of \<^verbatim>\<open>get_free_games\<close>, over the remaining entries, with
  \<open>free_games\<close> the list built so far. An exception in any entry leaves the loop (and the
  enclosing \<^verbatim>\<open>try\<close>).
\<close>

fun collect_free_games :: "json list \<Rightarrow> game list \<Rightarrow> json list \<Rightarrow> py_error + game list" where
  "collect_free_games claimed free_games [] = Inr free_games"
| "collect_free_games claimed free_games (item # items) =
     (case discount_price item of
        Inl err \<Rightarrow> Inl err
      | Inr price \<Rightarrow>
          if py_eq price (JNum 0) then
            (case game_of_item item of
               Inl err \<Rightarrow> Inl err
             | Inr g \<Rightarrow>
                 if py_in (game_id g) claimed
                 then collect_free_games claimed free_games items
                 else collect_free_games claimed (free_games @ [g]) items)
          else collect_free_games claimed free_games items)"

definition get_free_games :: "env \<Rightarrow> client \<Rightarrow> game list \<times> client" where
  "get_free_games e s =
     (case ensure_authenticated e s of
        (False, s1) \<Rightarrow> ([], s1)
      | (True, s1) \<Rightarrow>
          let s2 = send free_games_request s1 in
          (case net e free_games_request of
             Raises \<Rightarrow> ([], s2)
           | Reply status body \<Rightarrow>
               if status = 200 then
                 (case body of
                    None \<Rightarrow> ([], s2)
                  | Some data \<Rightarrow>
                      (case py_then (py_then (catalog_elements data) py_iter)
                              (collect_free_games (claimed_games s2) []) of
                         Inl _ \<Rightarrow> ([], s2)
                       | Inr free_games \<Rightarrow> (free_games, s2)))
               else ([], s2)))"

section \<open>Claim\<close>

text \<open>The text of the GraphQL mutation, its line breaks and indentation left out.\<close>

definition purchase_query :: string where
  "purchase_query =
     ''mutation purchaseOrderMutation($orderPurchaseParams: OrderPurchaseParams!) { '' @
     ''purchaseOrder(orderPurchaseParams: $orderPurchaseParams) { '' @
     ''orderResponse { orderResponseCode orderNumber orderComplete orderError } } }''"

definition claim_request :: "json \<Rightarrow> json \<Rightarrow> request" where
  "claim_request gid ns =
     Post GRAPHQL_URL
       (JObj [(''query'', JStr purchase_query),
              (''variables'',
               JObj [(''orderPurchaseParams'',
                      JObj [(''productId'', gid),
                            (''quantity'', JNum 1),
                            (''namespace'', ns),
                            (''offerId'', gid),
                            (''currency'', JStr ''USD''),
                            (''lineOffers'',
                             JList [JObj [(''offerId'', gid), (''quantity'', JNum 1)]])])])])"

text \<open>
  \<^verbatim>\<open>result.get('data', {}).get('purchaseOrder', {}).get('orderResponse', {})\<close>
\<close>

definition purchase_data :: "json \<Rightarrow> py_error + json" where
  "purchase_data result =
     py_then (py_get result ''data'' (JObj []))
       (\<lambda>d. py_then (py_get d ''purchaseOrder'' (JObj []))
          (\<lambda>po. py_get po ''orderResponse'' (JObj [])))"

definition claim_game :: "env \<Rightarrow> game \<Rightarrow> client \<Rightarrow> bool \<times> client" where
  "claim_game e g s =
     (case ensure_authenticated e s of
        (False, s1) \<Rightarrow> (False, s1)
      | (True, s1) \<Rightarrow>
          if \<not> (py_truthy (game_id g) \<and> py_truthy (namespace g) \<and> py_truthy (title g))
          then (False, s1)
          else
            let s2 = send (claim_request (game_id g) (namespace g)) s1 in
            (case net e (claim_request (game_id g) (namespace g)) of
               Raises \<Rightarrow> (False, s2)
             | Reply status body \<Rightarrow>
                 if status = 200 then
                   (case body of
                      None \<Rightarrow> (False, s2)
                    | Some result \<Rightarrow>
                        (case py_then (purchase_data result)
                                (\<lambda>pd. py_get pd ''orderComplete'' (JBool False)) of
                           Inl _ \<Rightarrow> (False, s2)
                         | Inr order_complete \<Rightarrow>
                             if py_truthy order_complete
                             then (True,
                                   save_claimed_games e
                                     (s2\<lparr>claimed_games := claimed_games s2 @ [game_id g]\<rparr>))
                             else (False, s2)))
                 else (False, s2)))"

section \<open>Concrete clients, games and surroundings\<close>

text \<open>A client holding a token that is good until time 10000, and one whose token ran out at 1000.\<close>

definition valid_client :: client where
  "valid_client =
     init_client\<lparr>access_token := JStr ''tok'', refresh_token := JStr ''ref'',
                 account_id := JStr ''acc'', expires_at := 10000\<rparr>"

definition stale_client :: client where
  "stale_client = valid_client\<lparr>expires_at := 1000\<rparr>"

definition game_c :: game where
  "game_c =
     \<lparr>game_id = JStr ''c'', title = JStr ''T'', namespace = JStr ''ns'',
      description = JNull, url_slug = JNull\<rparr>"

text \<open>At time 1000, with a working disk, a server that answers every request with \<open>r\<close>.\<close>

definition answering :: "http_reply \<Rightarrow> env" where
  "answering r = \<lparr>net = (\<lambda>_. r), now = 1000, fs_write = Written\<rparr>"

text \<open>A token reply whose \<^verbatim>\<open>expires_in\<close> is the string \<^verbatim>\<open>"3600"\<close> instead of a number.\<close>

definition token_reply_text_expiry :: http_reply where
  "token_reply_text_expiry =
     Reply 200 (Some (JObj [(''access_token'', JStr ''new''),
                            (''refresh_token'', JStr ''ref2''),
                            (''account_id'', JStr ''acc2''),
                            (''expires_in'', JStr ''3600'')]))"

text \<open>
  A provider that accepts the password, hands out an authorization code and then sends
  the token reply above.
\<close>

definition login_env_text_expiry :: env where
  "login_env_text_expiry =
     \<lparr>net = (\<lambda>r. case r of
               Get _ _ \<Rightarrow> Reply 200 (Some (JObj [(''redirectUrl'', JStr ''/cb?code=abc&x=1'')]))
             | Post url _ \<Rightarrow>
                 if url = LOGIN_URL then Reply 200 (Some (JObj []))
                 else token_reply_text_expiry),
      now = 1000, fs_write = Written\<rparr>"

definition two_factor_reply :: http_reply where
  "two_factor_reply =
     Reply 200 (Some (JObj [(''twoFactorRequired'', JBool True),
                            (''method'', JStr ''email'')]))"

definition catalog_item :: "string \<Rightarrow> rat \<Rightarrow> json" where
  "catalog_item i p =
     JObj [(''id'', JStr i), (''title'', JStr i), (''namespace'', JStr ''ns''),
           (''price'', JObj [(''totalPrice'', JObj [(''discountPrice'', JNum p)])])]"

definition catalog_reply :: "json list \<Rightarrow> http_reply" where
  "catalog_reply items =
     Reply 200 (Some (JObj [(''data'',
       JObj [(''Catalog'', JObj [(''searchStore'', JObj [(''elements'', JList items)])])])]))"

definition order_reply :: "json \<Rightarrow> http_reply" where
  "order_reply v =
     Reply 200 (Some (JObj [(''data'',
       JObj [(''purchaseOrder'', JObj [(''orderResponse'',
         JObj [(''orderComplete'', v)])])])]))"

text \<open>
  The catalog of the specification's scenario: \<^verbatim>\<open>a\<close> and \<^verbatim>\<open>c\<close> are free, \<^verbatim>\<open>b\<close> costs
  500; the client has claimed \<^verbatim>\<open>a\<close>.
\<close>

definition scenario_items :: "json list" where
  "scenario_items = [catalog_item ''a'' 0, catalog_item ''b'' 500, catalog_item ''c'' 0]"

definition scenario_client :: client where
  "scenario_client = valid_client\<lparr>claimed_games := [JStr ''a'']\<rparr>"

text \<open>A catalog entry that carries no price at all.\<close>

definition unpriced_item :: json where
  "unpriced_item = JObj [(''id'', JStr ''d''), (''title'', JStr ''D''), (''namespace'', JStr ''ns'')]"

text \<open>A catalog entry whose \<^verbatim>\<open>price\<close> member is \<^verbatim>\<open>null\<close>.\<close>

definition null_price_item :: json where
  "null_price_item = JObj [(''id'', JStr ''z''), (''title'', JStr ''Z''), (''price'', JNull)]"

text \<open>A client that has claimed \<^verbatim>\<open>c\<close> already.\<close>

definition owner_of_c :: client where
  "owner_of_c = valid_client\<lparr>claimed_games := [JStr ''c''], claimed_games_file := Holds [JStr ''c'']\<rparr>"

section \<open>What the specification says of the catalog and of the order reply\<close>

text \<open>
  The value \<^verbatim>\<open>item.get(k, d)\<close> of a catalog entry that is a dictionary.
\<close>

definition item_get :: "json \<Rightarrow> string \<Rightarrow> json \<Rightarrow> json" where
  "item_get item k d = (case py_get item k d of Inr v \<Rightarrow> v | Inl _ \<Rightarrow> d)"

text \<open>
  A catalog entry is well formed when its price can be read: the entry is a dictionary,
  and \<^verbatim>\<open>price\<close> and \<^verbatim>\<open>totalPrice\<close>, where present, are dictionaries too.
\<close>

definition entry_ok :: "json \<Rightarrow> bool" where
  "entry_ok item = (case discount_price item of Inl _ \<Rightarrow> False | Inr _ \<Rightarrow> True)"

text \<open>An entry is free when its discount price equals zero.\<close>

definition is_free :: "json \<Rightarrow> bool" where
  "is_free item = (case discount_price item of Inl _ \<Rightarrow> False | Inr p \<Rightarrow> py_eq p (JNum 0))"

text \<open>The offer record of a catalog entry.\<close>

definition offer_of :: "json \<Rightarrow> game" where
  "offer_of item =
     \<lparr>game_id = item_get item ''id'' JNull,
      title = item_get item ''title'' (JStr ''Unknown Game''),
      namespace = item_get item ''namespace'' JNull,
      description = item_get item ''description'' JNull,
      url_slug = item_get item ''urlSlug'' JNull\<rparr>"

text \<open>
  The specified result of the catalog query: the entries that are free and whose id is
  not in the claimed set, as offers, in the order of the catalog.
\<close>

definition spec_free_offers :: "json list \<Rightarrow> json list \<Rightarrow> game list" where
  "spec_free_offers claimed items =
     map offer_of
       (filter (\<lambda>item. is_free item \<and> \<not> py_in (item_get item ''id'' JNull) claimed) items)"

text \<open>
  The entries of a catalog reply: what the \<^verbatim>\<open>for\<close> loop runs over, and nothing when
  the path to \<^verbatim>\<open>elements\<close> cannot be followed or its value cannot be iterated.
\<close>

definition catalog_entries :: "json \<Rightarrow> json list" where
  "catalog_entries data =
     (case py_then (catalog_elements data) py_iter of Inl _ \<Rightarrow> [] | Inr items \<Rightarrow> items)"

text \<open>
  An entry without a \<^verbatim>\<open>price\<close> member, or whose price has no \<^verbatim>\<open>totalPrice\<close>, or whose
  total price has no \<^verbatim>\<open>discountPrice\<close>.
\<close>

fun lacks_discount_price :: "json \<Rightarrow> bool" where
  "lacks_discount_price (JObj kvs) =
     (case map_of kvs ''price'' of
        None \<Rightarrow> True
      | Some (JObj p) \<Rightarrow>
          (case map_of p ''totalPrice'' of
             None \<Rightarrow> True
           | Some (JObj tp) \<Rightarrow> map_of tp ''discountPrice'' = None
           | Some _ \<Rightarrow> False)
      | Some _ \<Rightarrow> False)"
| "lacks_discount_price _ = False"

text \<open>The number of requests sent to the catalog endpoint so far.\<close>

definition catalog_calls :: "client \<Rightarrow> nat" where
  "catalog_calls s =
     length (filter (\<lambda>r. case r of Get url _ \<Rightarrow> url = FREE_GAMES_URL | Post _ _ \<Rightarrow> False)
               (requests s))"

text \<open>
  The transaction reply marks the order complete, as the client reads it: status 200, a
  body that parses, and under \<^verbatim>\<open>data.purchaseOrder.orderResponse\<close> a member
  \<^verbatim>\<open>orderComplete\<close> that is true as a Python condition.
\<close>

definition marks_order_complete :: "http_reply \<Rightarrow> bool" where
  "marks_order_complete r =
     (case r of
        Raises \<Rightarrow> False
      | Reply status body \<Rightarrow>
          status = 200 \<and>
          (case body of
             None \<Rightarrow> False
           | Some result \<Rightarrow>
               (case purchase_data result of
                  Inl _ \<Rightarrow> False
                | Inr pd \<Rightarrow> py_truthy (item_get pd ''orderComplete'' (JBool False)))))"

text \<open>
  The same, as the specification words it: the member \<^verbatim>\<open>orderComplete\<close> is the JSON
  value \<^verbatim>\<open>true\<close>.
\<close>

definition states_order_complete :: "http_reply \<Rightarrow> bool" where
  "states_order_complete r =
     (case r of
        Raises \<Rightarrow> False
      | Reply status body \<Rightarrow>
          status = 200 \<and>
          (case body of
             None \<Rightarrow> False
           | Some result \<Rightarrow>
               (case purchase_data result of
                  Inl _ \<Rightarrow> False
                | Inr pd \<Rightarrow> item_get pd ''orderComplete'' (JBool False) = JBool True)))"

section \<open>Authentication check\<close>

text \<open>
  C5. \<^verbatim>\<open>ensure_authenticated\<close> returns false when there is no access token, and true when
  there is one and \<open>expires_at\<close> lies more than 300 seconds after the current time. In
  both cases the client comes back as it was, so no request has been sent.
\<close>

theorem ensure_authenticated_without_network:
  "(\<not> py_truthy (access_token s) \<longrightarrow>
      ensure_authenticated e s = (False, s) \<and>
      requests (snd (ensure_authenticated e s)) = requests s) \<and>
   (py_truthy (access_token s) \<and> now e + 300 < expires_at s \<longrightarrow>
      ensure_authenticated e s = (True, s) \<and>
      requests (snd (ensure_authenticated e s)) = requests s)"
  by (simp add: ensure_authenticated_def is_token_expired_def)

theorem ensure_authenticated_without_network_witness:
  "access_token init_client = JNull \<and>
   ensure_authenticated (answering Raises) init_client = (False, init_client) \<and>
   py_truthy (access_token valid_client) \<and>
   now (answering Raises) + 300 < expires_at valid_client \<and>
   ensure_authenticated (answering Raises) valid_client = (True, valid_client)"
  using ensure_authenticated_without_network [of init_client "answering Raises"]
        ensure_authenticated_without_network [of valid_client "answering Raises"]
  by (simp add: init_client_def valid_client_def answering_def)

section \<open>What the authentication check leaves alone\<close>

text \<open>
  Neither the refresh nor the check touches the claimed-games list or its file, and the
  only request they can send is the one refresh request.
\<close>

lemma refresh_access_token_ledger:
  "claimed_games (snd (refresh_access_token e s)) = claimed_games s \<and>
   claimed_games_file (snd (refresh_access_token e s)) = claimed_games_file s"
  by (simp add: refresh_access_token_def send_def save_session_def Let_def
      split: http_reply.splits option.splits sum.splits write_result.splits)

lemma refresh_access_token_requests:
  "requests (snd (refresh_access_token e s)) =
     requests s @ (if py_truthy (refresh_token s) then [refresh_request s] else [])"
  by (simp add: refresh_access_token_def send_def save_session_def Let_def
      split: http_reply.splits option.splits sum.splits write_result.splits)

lemma ensure_authenticated_ledger:
  "claimed_games (snd (ensure_authenticated e s)) = claimed_games s \<and>
   claimed_games_file (snd (ensure_authenticated e s)) = claimed_games_file s"
  by (simp add: ensure_authenticated_def refresh_access_token_ledger)

lemma ensure_authenticated_requests:
  "requests (snd (ensure_authenticated e s)) =
     requests s @
     (if py_truthy (access_token s) \<and> is_token_expired e s \<and> py_truthy (refresh_token s)
      then [refresh_request s] else [])"
  by (simp add: ensure_authenticated_def refresh_access_token_requests)

lemma refresh_request_requests [simp]:
  "refresh_request (s\<lparr>requests := r\<rparr>) = refresh_request s"
  by (simp add: refresh_request_def)

lemma refresh_access_token_any_trace:
  "fst (refresh_access_token e (s\<lparr>requests := r\<rparr>)) = fst (refresh_access_token e s)"
  by (simp add: refresh_access_token_def send_def save_session_def Let_def
      split: http_reply.splits option.splits sum.splits write_result.splits)

lemma ensure_authenticated_any_trace:
  "fst (ensure_authenticated e (s\<lparr>requests := r\<rparr>)) = fst (ensure_authenticated e s)"
  by (simp add: ensure_authenticated_def is_token_expired_def refresh_access_token_any_trace)

text \<open>
  A credential whose \<open>expires_at\<close> is at most 300 seconds ahead is refreshed: the check
  is then exactly one run of \<^verbatim>\<open>_refresh_access_token\<close>, which sends one request when
  there is a refresh token and none otherwise.
\<close>

lemma ensure_authenticated_expired:
  assumes "py_truthy (access_token s)" and "expires_at s \<le> now e + 300"
  shows "ensure_authenticated e s = refresh_access_token e s"
    and "requests (snd (ensure_authenticated e s)) =
           requests s @ (if py_truthy (refresh_token s) then [refresh_request s] else [])"
  using assms
  by (simp_all add: ensure_authenticated_def is_token_expired_def refresh_access_token_requests)

text \<open>
  A refresh that fails never writes the session file, the header, the account id or
  \<open>expires_at\<close>; and unless the reply is a 200 with a dictionary as body, it leaves the
  two tokens alone as well.
\<close>

lemma refresh_access_token_keeps_credential:
  assumes "\<forall>kvs. net e (refresh_request s) \<noteq> Reply 200 (Some (JObj kvs))"
  shows "\<not> fst (refresh_access_token e s) \<and>
         access_token (snd (refresh_access_token e s)) = access_token s \<and>
         refresh_token (snd (refresh_access_token e s)) = refresh_token s \<and>
         account_id (snd (refresh_access_token e s)) = account_id s \<and>
         expires_at (snd (refresh_access_token e s)) = expires_at s \<and>
         session_file (snd (refresh_access_token e s)) = session_file s"
proof (cases "net e (refresh_request s)")
  case Raises
  then show ?thesis by (simp add: refresh_access_token_def send_def Let_def)
next
  case (Reply status body)
  show ?thesis
  proof (cases body)
    case None
    with Reply show ?thesis by (simp add: refresh_access_token_def send_def Let_def)
  next
    case (Some token_data)
    show ?thesis
    proof (cases "status = 200")
      case False
      with Reply show ?thesis by (simp add: refresh_access_token_def send_def Let_def)
    next
      case True
      with Reply Some assms have "\<forall>kvs. token_data \<noteq> JObj kvs" by simp
      then have "py_get token_data ''access_token'' JNull = Inl AttributeError"
        by (cases token_data) simp_all
      with Reply Some show ?thesis by (simp add: refresh_access_token_def send_def Let_def)
    qed
  qed
qed

lemma refresh_access_token_never_saves_on_failure:
  "\<not> fst (refresh_access_token e s) \<Longrightarrow>
   session_file (snd (refresh_access_token e s)) = session_file s \<and>
   authorization (snd (refresh_access_token e s)) = authorization s \<and>
   account_id (snd (refresh_access_token e s)) = account_id s \<and>
   expires_at (snd (refresh_access_token e s)) = expires_at s"
  by (simp add: refresh_access_token_def send_def Let_def
      split: if_splits http_reply.splits option.splits sum.splits write_result.splits)

text \<open>
  C6. Refresh on expiry, with a failing refresh. The client \<open>stale_client\<close> holds the
  tokens \<^verbatim>\<open>tok\<close> and \<^verbatim>\<open>ref\<close> and \<open>expires_at = 1000\<close>; the time is 1000. The
  provider answers the refresh request with status 200 and a body whose
  \<^verbatim>\<open>expires_in\<close> is the string \<^verbatim>\<open>"3600"\<close>. One refresh request is sent, the check
  returns false and nothing is written to the session file, but the client now holds the
  access token \<^verbatim>\<open>new\<close> and the refresh token \<^verbatim>\<open>ref2\<close> of the reply: the two fields
  were assigned before the addition \<^verbatim>\<open>time.time() + "3600"\<close> raised.
\<close>

theorem refresh_failure_keeps_new_tokens:
  "py_truthy (access_token stale_client) \<and>
   expires_at stale_client \<le> now (answering token_reply_text_expiry) + 300 \<and>
   \<not> fst (ensure_authenticated (answering token_reply_text_expiry) stale_client) \<and>
   requests (snd (ensure_authenticated (answering token_reply_text_expiry) stale_client)) =
     [refresh_request stale_client] \<and>
   access_token stale_client = JStr ''tok'' \<and>
   access_token (snd (ensure_authenticated (answering token_reply_text_expiry) stale_client)) =
     JStr ''new'' \<and>
   refresh_token stale_client = JStr ''ref'' \<and>
   refresh_token (snd (ensure_authenticated (answering token_reply_text_expiry) stale_client)) =
     JStr ''ref2'' \<and>
   session_file (snd (ensure_authenticated (answering token_reply_text_expiry) stale_client)) =
     Missing"
  by (simp add: ensure_authenticated_def is_token_expired_def refresh_access_token_def
      refresh_request_def send_def answering_def token_reply_text_expiry_def
      stale_client_def valid_client_def init_client_def Let_def)

section \<open>Failing and suspended logins\<close>

text \<open>A login that does not succeed writes neither the session file nor the header.\<close>

lemma login_never_saves_on_failure:
  "\<not> fst (fst (login e username password s)) \<Longrightarrow>
   session_file (snd (login e username password s)) = session_file s \<and>
   authorization (snd (login e username password s)) = authorization s \<and>
   expires_at (snd (login e username password s)) = expires_at s"
  by (simp add: login_def send_def Let_def
      split: if_splits http_reply.splits option.splits sum.splits write_result.splits)

text \<open>
  C7. A login whose token exchange fails while the reply is read. The provider accepts
  the password, returns a redirect URL with a code, and answers the token request with
  status 200 and \<^verbatim>\<open>expires_in\<close> given as a string. \<^verbatim>\<open>login\<close> returns
  \<open>(False, JNull)\<close> and writes no session file, but the access token, the refresh token
  and the account id of the client, all absent before, are those of the reply.
\<close>

theorem login_failure_keeps_new_tokens:
  "fst (login login_env_text_expiry ''u'' ''p'' init_client) = (False, JNull) \<and>
   access_token (snd (login login_env_text_expiry ''u'' ''p'' init_client)) = JStr ''new'' \<and>
   refresh_token (snd (login login_env_text_expiry ''u'' ''p'' init_client)) = JStr ''ref2'' \<and>
   account_id (snd (login login_env_text_expiry ''u'' ''p'' init_client)) = JStr ''acc2'' \<and>
   session_file (snd (login login_env_text_expiry ''u'' ''p'' init_client)) = Missing"
  by code_simp

text \<open>
  C8. When the provider answers the login request with status 200 and a body whose
  \<^verbatim>\<open>twoFactorRequired\<close> is true and whose \<^verbatim>\<open>method\<close> is \<open>m\<close>, \<^verbatim>\<open>login\<close> returns
  \<open>(False, m)\<close>, having sent the login request only. No credential field changes and the
  session file is not written. A later \<^verbatim>\<open>ensure_authenticated\<close> answers as it would
  have before the login; for a client without an access token it returns false.
\<close>

theorem login_two_factor_required:
  assumes reply: "net e (login_request username password) = Reply 200 (Some (JObj kvs))"
    and required: "map_of kvs ''twoFactorRequired'' = Some tfr" "py_truthy tfr"
    and given: "map_of kvs ''method'' = Some m"
  shows "login e username password s = ((False, m), send (login_request username password) s) \<and>
         access_token (snd (login e username password s)) = access_token s \<and>
         refresh_token (snd (login e username password s)) = refresh_token s \<and>
         account_id (snd (login e username password s)) = account_id s \<and>
         expires_at (snd (login e username password s)) = expires_at s \<and>
         session_file (snd (login e username password s)) = session_file s \<and>
         (\<forall>e'. fst (ensure_authenticated e' (snd (login e username password s))) =
                fst (ensure_authenticated e' s)) \<and>
         (\<not> py_truthy (access_token s) \<longrightarrow>
            (\<forall>e'. \<not> fst (ensure_authenticated e' (snd (login e username password s)))))"
proof -
  have run: "login e username password s = ((False, m), send (login_request username password) s)"
    using assms by (simp add: login_def Let_def)
  have same: "fst (ensure_authenticated e' (send r s)) = fst (ensure_authenticated e' s)" for e' r
    by (simp add: send_def ensure_authenticated_any_trace)
  have none: "\<not> py_truthy (access_token s) \<Longrightarrow> \<not> fst (ensure_authenticated e' s)" for e'
    by (simp add: ensure_authenticated_def)
  show ?thesis
    using same none by (simp add: run send_def)
qed

theorem login_two_factor_required_witness:
  "login (answering two_factor_reply) ''u'' ''p'' init_client =
     ((False, JStr ''email''), send (login_request ''u'' ''p'') init_client) \<and>
   session_file (snd (login (answering two_factor_reply) ''u'' ''p'' init_client)) = Missing \<and>
   \<not> fst (ensure_authenticated (answering Raises)
            (snd (login (answering two_factor_reply) ''u'' ''p'' init_client)))"
proof -
  have reply: "net (answering two_factor_reply) (login_request ''u'' ''p'') =
      Reply 200 (Some (JObj [(''twoFactorRequired'', JBool True), (''method'', JStr ''email'')]))"
    by (simp add: answering_def two_factor_reply_def)
  have a: "map_of [(''twoFactorRequired'', JBool True), (''method'', JStr ''email'')]
      ''twoFactorRequired'' = Some (JBool True)" by simp
  have b: "py_truthy (JBool True)" by simp
  have c: "map_of [(''twoFactorRequired'', JBool True), (''method'', JStr ''email'')]
      ''method'' = Some (JStr ''email'')" by simp
  have none: "\<not> py_truthy (access_token init_client)"
    by (simp add: init_client_def)
  have unsaved: "session_file init_client = Missing"
    by (simp add: init_client_def)
  show ?thesis
    using login_two_factor_required [OF reply a b c, of init_client] none unsaved
    by auto
qed

section \<open>Catalog query without authentication\<close>

text \<open>
  C4, as stated, asks for an outcome \<^verbatim>\<open>NotAuthenticated\<close>. \<^verbatim>\<open>get_free_games\<close> has no
  such outcome: for a client that is not authenticated it returns the empty list, which
  is also what an authenticated client gets for an empty catalog.
\<close>

theorem get_free_games_unauthenticated_counterexample:
  "\<not> fst (ensure_authenticated (answering (catalog_reply [])) init_client) \<and>
   fst (get_free_games (answering (catalog_reply [])) init_client) = [] \<and>
   fst (ensure_authenticated (answering (catalog_reply [])) valid_client) \<and>
   fst (get_free_games (answering (catalog_reply [])) valid_client) = []"
  by code_simp

text \<open>
  C4, amended. When \<^verbatim>\<open>ensure_authenticated\<close> returns false, \<^verbatim>\<open>get_free_games\<close>
  returns the empty list and the client as the check left it; no request goes to the
  catalog endpoint.
\<close>

theorem get_free_games_unauthenticated:
  assumes "\<not> fst (ensure_authenticated e s)"
  shows "get_free_games e s = ([], snd (ensure_authenticated e s)) \<and>
         catalog_calls (snd (get_free_games e s)) = catalog_calls s"
proof -
  obtain s1 where s1: "ensure_authenticated e s = (False, s1)"
    using assms by (cases "ensure_authenticated e s") auto
  have run: "get_free_games e s = ([], s1)"
    by (simp add: get_free_games_def s1)
  have "requests s1 = requests s @
      (if py_truthy (access_token s) \<and> is_token_expired e s \<and> py_truthy (refresh_token s)
       then [refresh_request s] else [])"
    using ensure_authenticated_requests [of e s] by (simp add: s1)
  then have "catalog_calls s1 = catalog_calls s"
    by (simp add: catalog_calls_def refresh_request_def)
  then show ?thesis by (simp add: run s1)
qed

theorem get_free_games_unauthenticated_witness:
  "\<not> fst (ensure_authenticated (answering (catalog_reply [])) init_client) \<and>
   get_free_games (answering (catalog_reply [])) init_client = ([], init_client) \<and>
   catalog_calls (snd (get_free_games (answering (catalog_reply [])) init_client)) = 0"
proof -
  have unauth: "\<not> fst (ensure_authenticated (answering (catalog_reply [])) init_client)"
    by (simp add: ensure_authenticated_def init_client_def)
  have "snd (ensure_authenticated (answering (catalog_reply [])) init_client) = init_client"
    by (simp add: ensure_authenticated_def init_client_def)
  moreover have "catalog_calls init_client = 0"
    by (simp add: catalog_calls_def init_client_def)
  ultimately show ?thesis
    using get_free_games_unauthenticated [OF unauth] unauth by simp
qed

section \<open>Claims that are turned down locally\<close>

text \<open>
  C9. For an authenticated call on a game whose id, namespace or title is absent (or
  otherwise false as a Python condition), \<^verbatim>\<open>claim_game\<close> returns false and the
  client as the authentication check left it: no claim request is sent, and the
  claimed-games list and its file are unchanged. With a token that is not yet due for
  refresh the client is unchanged altogether, so no request at all is sent.
\<close>

theorem claim_game_rejects_incomplete_game:
  assumes auth: "fst (ensure_authenticated e s)"
    and missing: "\<not> py_truthy (game_id g) \<or> \<not> py_truthy (namespace g) \<or> \<not> py_truthy (title g)"
  shows "claim_game e g s = (False, snd (ensure_authenticated e s)) \<and>
         requests (snd (claim_game e g s)) = requests (snd (ensure_authenticated e s)) \<and>
         claimed_games (snd (claim_game e g s)) = claimed_games s \<and>
         claimed_games_file (snd (claim_game e g s)) = claimed_games_file s \<and>
         (\<not> is_token_expired e s \<longrightarrow> snd (claim_game e g s) = s)"
proof -
  obtain s1 where s1: "ensure_authenticated e s = (True, s1)"
    using auth by (cases "ensure_authenticated e s") auto
  have run: "claim_game e g s = (False, s1)"
    using missing by (auto simp: claim_game_def s1)
  have fresh: "\<not> is_token_expired e s \<Longrightarrow> s1 = s"
    using s1 by (auto simp: ensure_authenticated_def split: if_splits)
  show ?thesis
    using ensure_authenticated_ledger [of e s] fresh by (simp add: run s1)
qed

theorem claim_game_rejects_incomplete_game_witness:
  "fst (ensure_authenticated (answering Raises) valid_client) \<and>
   namespace (game_c\<lparr>namespace := JNull\<rparr>) = JNull \<and>
   claim_game (answering Raises) (game_c\<lparr>namespace := JNull\<rparr>) valid_client = (False, valid_client)"
proof -
  have auth: "fst (ensure_authenticated (answering Raises) valid_client)"
    by (simp add: ensure_authenticated_def is_token_expired_def answering_def
        valid_client_def init_client_def)
  have fresh: "\<not> is_token_expired (answering Raises) valid_client"
    by (simp add: is_token_expired_def answering_def valid_client_def init_client_def)
  have missing: "\<not> py_truthy (game_id (game_c\<lparr>namespace := JNull\<rparr>)) \<or>
      \<not> py_truthy (namespace (game_c\<lparr>namespace := JNull\<rparr>)) \<or>
      \<not> py_truthy (title (game_c\<lparr>namespace := JNull\<rparr>))"
    by simp
  show ?thesis
    using claim_game_rejects_incomplete_game [OF auth missing] auth fresh
    by (cases "claim_game (answering Raises) (game_c\<lparr>namespace := JNull\<rparr>) valid_client") simp
qed

section \<open>The games a catalog query returns\<close>

text \<open>
  A well-formed entry is a dictionary, so the record built for it is \<open>offer_of\<close>, and
  one round of the loop appends that record exactly when the entry is free and its id is
  not in the claimed list.
\<close>

lemma py_get_obj:
  "py_get item k d = Inr v \<Longrightarrow> \<exists>kvs. item = JObj kvs"
  by (cases item) simp_all

lemma entry_ok_obj:
  assumes "entry_ok item"
  shows "\<exists>kvs. item = JObj kvs"
  using assms by (cases item) (simp_all add: entry_ok_def discount_price_def)

lemma game_of_item_obj:
  "game_of_item (JObj kvs) = Inr (offer_of (JObj kvs))"
  by (simp add: game_of_item_def offer_of_def item_get_def split: option.split)

lemma entry_ok_game_of_item:
  "entry_ok item \<Longrightarrow> game_of_item item = Inr (offer_of item)"
  using entry_ok_obj game_of_item_obj by blast

lemma collect_free_games_step:
  assumes "entry_ok item"
  shows "collect_free_games claimed acc (item # items) =
           collect_free_games claimed
             (if is_free item \<and> \<not> py_in (item_get item ''id'' JNull) claimed
              then acc @ [offer_of item] else acc) items"
proof -
  obtain p where p: "discount_price item = Inr p"
    using assms by (cases "discount_price item") (simp_all add: entry_ok_def)
  have g: "game_of_item item = Inr (offer_of item)"
    using assms by (rule entry_ok_game_of_item)
  have i: "game_id (offer_of item) = item_get item ''id'' JNull"
    by (simp add: offer_of_def)
  show ?thesis
    by (simp add: p g i is_free_def)
qed

lemma spec_free_offers_Cons:
  "spec_free_offers claimed (item # items) =
     (if is_free item \<and> \<not> py_in (item_get item ''id'' JNull) claimed
      then offer_of item # spec_free_offers claimed items
      else spec_free_offers claimed items)"
  by (simp add: spec_free_offers_def)

lemma collect_free_games_spec:
  "\<forall>item \<in> set items. entry_ok item \<Longrightarrow>
   collect_free_games claimed acc items = Inr (acc @ spec_free_offers claimed items)"
proof (induction items arbitrary: acc)
  case Nil
  show ?case by (simp add: spec_free_offers_def)
next
  case (Cons item items)
  have ok: "entry_ok item" and rest: "\<forall>i \<in> set items. entry_ok i"
    using Cons.prems by simp_all
  show ?case
    unfolding collect_free_games_step [OF ok] spec_free_offers_Cons
    by (simp add: Cons.IH [OF rest])
qed

text \<open>Whatever the entries are, a game that the loop returns has an id outside the claimed list.\<close>

lemma collect_free_games_unclaimed:
  "collect_free_games claimed acc items = Inr gs \<Longrightarrow>
   \<forall>g \<in> set acc. \<not> py_in (game_id g) claimed \<Longrightarrow>
   \<forall>g \<in> set gs. \<not> py_in (game_id g) claimed"
proof (induction items arbitrary: acc)
  case Nil
  then show ?case by simp
next
  case (Cons item items)
  show ?case
  proof (cases "discount_price item")
    case (Inl err)
    with Cons.prems(1) show ?thesis by simp
  next
    case (Inr p)
    show ?thesis
    proof (cases "py_eq p (JNum 0)")
      case False
      with Inr Cons.prems(1) have "collect_free_games claimed acc items = Inr gs"
        by simp
      then show ?thesis using Cons.prems(2) by (rule Cons.IH)
    next
      case True
      show ?thesis
      proof (cases "game_of_item item")
        case (Inl err)
        with Inr True Cons.prems(1) show ?thesis by simp
      next
        case g: (Inr g)
        show ?thesis
        proof (cases "py_in (game_id g) claimed")
          case True
          with Inr \<open>py_eq p (JNum 0)\<close> g Cons.prems(1)
          have "collect_free_games claimed acc items = Inr gs"
            by simp
          then show ?thesis using Cons.prems(2) by (rule Cons.IH)
        next
          case False
          with Inr \<open>py_eq p (JNum 0)\<close> g Cons.prems(1)
          have run: "collect_free_games claimed (acc @ [g]) items = Inr gs"
            by simp
          have "\<forall>x \<in> set (acc @ [g]). \<not> py_in (game_id x) claimed"
            using Cons.prems(2) False by simp
          with run show ?thesis by (rule Cons.IH)
        qed
      qed
    qed
  qed
qed

lemma get_free_games_state:
  "snd (get_free_games e s) =
     (if fst (ensure_authenticated e s)
      then send free_games_request (snd (ensure_authenticated e s))
      else snd (ensure_authenticated e s))"
proof (cases "ensure_authenticated e s")
  case (Pair ok s1)
  show ?thesis
  proof (cases ok)
    case False
    with Pair show ?thesis by (simp add: get_free_games_def)
  next
    case True
    with Pair show ?thesis
      by (simp add: get_free_games_def Let_def
          split: http_reply.split option.split sum.split)
  qed
qed

lemma get_free_games_ledger:
  "claimed_games (snd (get_free_games e s)) = claimed_games s \<and>
   claimed_games_file (snd (get_free_games e s)) = claimed_games_file s"
  using ensure_authenticated_ledger [of e s]
  by (simp add: get_free_games_state send_def)

lemma get_free_games_authenticated:
  assumes auth: "ensure_authenticated e s = (True, s1)"
    and reply: "net e free_games_request = Reply 200 (Some data)"
  shows "fst (get_free_games e s) =
           (case py_then (py_then (catalog_elements data) py_iter)
                   (collect_free_games (claimed_games s) []) of
              Inl _ \<Rightarrow> [] | Inr free_games \<Rightarrow> free_games)"
proof -
  have "claimed_games s1 = claimed_games s"
    using ensure_authenticated_ledger [of e s] auth by simp
  then show ?thesis
    by (simp add: get_free_games_def auth reply Let_def send_def split: sum.split)
qed

lemma get_free_games_empty_or_collected:
  "fst (get_free_games e s) = [] \<or>
   (\<exists>items. collect_free_games (claimed_games s) [] items = Inr (fst (get_free_games e s)))"
proof (cases "ensure_authenticated e s")
  case (Pair ok s1)
  show ?thesis
  proof (cases ok)
    case False
    with Pair show ?thesis by (simp add: get_free_games_def)
  next
    case True
    with Pair have auth: "ensure_authenticated e s = (True, s1)" by simp
    show ?thesis
    proof (cases "net e free_games_request")
      case Raises
      then show ?thesis by (simp add: get_free_games_def auth Let_def)
    next
      case (Reply status body)
      show ?thesis
      proof (cases "status = 200")
        case False
        with Reply show ?thesis by (simp add: get_free_games_def auth Let_def)
      next
        case True
        show ?thesis
        proof (cases body)
          case None
          with Reply True show ?thesis by (simp add: get_free_games_def auth Let_def)
        next
          case (Some data)
          have reply: "net e free_games_request = Reply 200 (Some data)"
            using Reply True Some by simp
          show ?thesis
          proof (cases "py_then (catalog_elements data) py_iter")
            case (Inl err)
            then show ?thesis
              by (simp add: get_free_games_authenticated [OF auth reply])
          next
            case items: (Inr items)
            show ?thesis
            proof (cases "collect_free_games (claimed_games s) [] items")
              case (Inl err)
              with items show ?thesis
                by (simp add: get_free_games_authenticated [OF auth reply])
            next
              case (Inr gs)
              with items have "fst (get_free_games e s) = gs"
                by (simp add: get_free_games_authenticated [OF auth reply])
              with Inr show ?thesis by blast
            qed
          qed
        qed
      qed
    qed
  qed
qed

lemma get_free_games_unclaimed:
  "\<forall>g \<in> set (fst (get_free_games e s)). \<not> py_in (game_id g) (claimed_games s)"
proof -
  from get_free_games_empty_or_collected [of e s] show ?thesis
  proof
    assume "fst (get_free_games e s) = []"
    then show ?thesis by simp
  next
    assume "\<exists>items. collect_free_games (claimed_games s) [] items =
              Inr (fst (get_free_games e s))"
    then obtain items where
      "collect_free_games (claimed_games s) [] items = Inr (fst (get_free_games e s))" ..
    then show ?thesis by (rule collect_free_games_unclaimed) simp
  qed
qed

lemma valid_client_authenticated:
  "ensure_authenticated (answering r) (valid_client\<lparr>claimed_games := c, claimed_games_file := f\<rparr>) =
     (True, valid_client\<lparr>claimed_games := c, claimed_games_file := f\<rparr>)"
  by (simp add: ensure_authenticated_def is_token_expired_def answering_def
      valid_client_def init_client_def)

text \<open>
  An entry that is not well formed raises in the loop, whatever came before it, and the
  exception ends the call with the empty list. So an authenticated query that gets a
  reply with status 200 returns the free unclaimed entries when all entries are well
  formed, and nothing otherwise.
\<close>

lemma collect_free_games_raises:
  "\<not> list_all entry_ok items \<Longrightarrow> \<exists>err. collect_free_games claimed acc items = Inl err"
proof (induction items arbitrary: acc)
  case Nil
  then show ?case by simp
next
  case (Cons item items)
  show ?case
  proof (cases "entry_ok item")
    case False
    then obtain err where "discount_price item = Inl err"
      by (cases "discount_price item") (simp_all add: entry_ok_def)
    then show ?thesis by simp
  next
    case True
    with Cons.prems have "\<not> list_all entry_ok items" by simp
    then show ?thesis
      unfolding collect_free_games_step [OF True] by (rule Cons.IH)
  qed
qed

lemma get_free_games_entries:
  assumes auth: "fst (ensure_authenticated e s)"
    and reply: "net e free_games_request = Reply 200 (Some data)"
  shows "fst (get_free_games e s) =
           (if list_all entry_ok (catalog_entries data)
            then spec_free_offers (claimed_games s) (catalog_entries data) else [])"
proof -
  obtain s1 where s1: "ensure_authenticated e s = (True, s1)"
    using auth by (cases "ensure_authenticated e s") auto
  note run = get_free_games_authenticated [OF s1 reply]
  show ?thesis
  proof (cases "py_then (catalog_elements data) py_iter")
    case (Inl err)
    then show ?thesis
      by (simp add: run catalog_entries_def spec_free_offers_def)
  next
    case (Inr items)
    then have entries: "catalog_entries data = items"
      by (simp add: catalog_entries_def)
    show ?thesis
    proof (cases "list_all entry_ok items")
      case True
      then have "\<forall>item \<in> set items. entry_ok item"
        by (simp add: list_all_iff)
      then show ?thesis
        using True by (simp add: run Inr entries collect_free_games_spec)
    next
      case False
      then obtain err where "collect_free_games (claimed_games s) [] items = Inl err"
        using collect_free_games_raises by blast
      then show ?thesis
        using False by (simp add: run Inr entries)
    qed
  qed
qed

lemma catalog_reply_entries:
  "catalog_entries (JObj [(''data'',
       JObj [(''Catalog'', JObj [(''searchStore'', JObj [(''elements'', JList items)])])])])
     = items"
  by (simp add: catalog_entries_def catalog_elements_def)

text \<open>
  C3, as stated, has every catalog reply answered with exactly its free unclaimed
  entries. In the reply below the entry \<^verbatim>\<open>c\<close> is free and not claimed, and a second
  entry has \<^verbatim>\<open>null\<close> for its price: reading that price raises inside the \<^verbatim>\<open>try\<close>, and
  the authenticated call returns the empty list instead of \<^verbatim>\<open>c\<close>.
\<close>

theorem get_free_games_malformed_entry_counterexample:
  "fst (ensure_authenticated
          (answering (catalog_reply [catalog_item ''c'' 0, null_price_item])) scenario_client) \<and>
   is_free (catalog_item ''c'' 0) \<and>
   \<not> py_in (item_get (catalog_item ''c'' 0) ''id'' JNull) (claimed_games scenario_client) \<and>
   fst (get_free_games
          (answering (catalog_reply [catalog_item ''c'' 0, null_price_item])) scenario_client) = []"
  by code_simp

text \<open>
  C3, amended. Every game returned by \<^verbatim>\<open>get_free_games\<close> has an id that is not in the
  claimed list as it was at the call, and the call leaves the claimed list and its file
  as they were. For an authenticated client and a catalog reply with status 200: when
  every entry of the reply is well formed, the result is exactly the free entries whose
  id is not claimed, as game records, in the order of the reply; when some entry is not,
  the result is empty.
\<close>

theorem get_free_games_returns_free_unclaimed:
  "(\<forall>g \<in> set (fst (get_free_games e s)). \<not> py_in (game_id g) (claimed_games s)) \<and>
   claimed_games (snd (get_free_games e s)) = claimed_games s \<and>
   claimed_games_file (snd (get_free_games e s)) = claimed_games_file s \<and>
   (fst (ensure_authenticated e s) \<and>
    net e free_games_request = Reply 200 (Some data) \<longrightarrow>
    fst (get_free_games e s) =
      (if list_all entry_ok (catalog_entries data)
       then spec_free_offers (claimed_games s) (catalog_entries data) else []))"
proof (intro conjI impI)
  show "\<forall>g \<in> set (fst (get_free_games e s)). \<not> py_in (game_id g) (claimed_games s)"
    by (rule get_free_games_unclaimed)
  show "claimed_games (snd (get_free_games e s)) = claimed_games s"
    by (simp add: get_free_games_ledger)
  show "claimed_games_file (snd (get_free_games e s)) = claimed_games_file s"
    by (simp add: get_free_games_ledger)
next
  assume h: "fst (ensure_authenticated e s) \<and>
    net e free_games_request = Reply 200 (Some data)"
  from h have auth: "fst (ensure_authenticated e s)"
    and reply: "net e free_games_request = Reply 200 (Some data)"
    by simp_all
  show "fst (get_free_games e s) =
      (if list_all entry_ok (catalog_entries data)
       then spec_free_offers (claimed_games s) (catalog_entries data) else [])"
    by (rule get_free_games_entries [OF auth reply])
qed

theorem get_free_games_returns_free_unclaimed_witness:
  "fst (ensure_authenticated (answering (catalog_reply scenario_items)) scenario_client) \<and>
   list_all entry_ok scenario_items \<and>
   claimed_games scenario_client = [JStr ''a''] \<and>
   fst (get_free_games (answering (catalog_reply scenario_items)) scenario_client) =
     [\<lparr>game_id = JStr ''c'', title = JStr ''c'', namespace = JStr ''ns'',
       description = JNull, url_slug = JNull\<rparr>]"
proof -
  have auth: "fst (ensure_authenticated (answering (catalog_reply scenario_items)) scenario_client)"
    by (simp add: ensure_authenticated_def is_token_expired_def answering_def
        scenario_client_def valid_client_def init_client_def)
  have reply: "net (answering (catalog_reply scenario_items)) free_games_request =
      Reply 200 (Some (JObj [(''data'',
        JObj [(''Catalog'', JObj [(''searchStore'',
          JObj [(''elements'', JList scenario_items)])])])]))"
    by (simp add: answering_def catalog_reply_def)
  have ok: "list_all entry_ok scenario_items"
    by (simp add: scenario_items_def catalog_item_def entry_ok_def discount_price_def)
  have led: "claimed_games scenario_client = [JStr ''a'']"
    by (simp add: scenario_client_def)
  have spec: "spec_free_offers [JStr ''a''] scenario_items =
      [\<lparr>game_id = JStr ''c'', title = JStr ''c'', namespace = JStr ''ns'',
        description = JNull, url_slug = JNull\<rparr>]"
    by (simp add: spec_free_offers_def scenario_items_def catalog_item_def is_free_def
        discount_price_def item_get_def offer_of_def py_in_def)
  show ?thesis
    using get_free_games_returns_free_unclaimed
      [of "answering (catalog_reply scenario_items)" scenario_client]
      auth reply ok led spec
    by (simp add: catalog_reply_entries)
qed

text \<open>An entry without a price is read with the defaults of \<^verbatim>\<open>get\<close>, which end in \<open>0\<close>.\<close>

lemma lacks_discount_price_zero:
  assumes "lacks_discount_price item"
  shows "discount_price item = Inr (JNum 0)"
proof (cases item)
  case (JObj kvs)
  show ?thesis
  proof (cases "map_of kvs ''price''")
    case None
    with JObj show ?thesis by (simp add: discount_price_def)
  next
    case (Some price)
    with JObj assms obtain p where p: "price = JObj p"
      by (cases price) simp_all
    show ?thesis
    proof (cases "map_of p ''totalPrice''")
      case None
      with JObj Some p show ?thesis by (simp add: discount_price_def)
    next
      case tp: (Some total)
      with JObj Some p assms obtain t where t: "total = JObj t"
        by (cases total) simp_all
      with JObj Some p tp assms have "map_of t ''discountPrice'' = None"
        by simp
      with JObj Some p tp t show ?thesis by (simp add: discount_price_def)
    qed
  qed
qed (use assms in simp_all)

text \<open>
  C10, as stated, has an unpriced entry with an unclaimed id among the returned games.
  Next to an entry whose price is \<^verbatim>\<open>null\<close> it is not: the authenticated call returns
  the empty list.
\<close>

theorem unpriced_entry_dropped_counterexample:
  "fst (ensure_authenticated
          (answering (catalog_reply [unpriced_item, null_price_item])) scenario_client) \<and>
   lacks_discount_price unpriced_item \<and>
   \<not> py_in (item_get unpriced_item ''id'' JNull) (claimed_games scenario_client) \<and>
   fst (get_free_games
          (answering (catalog_reply [unpriced_item, null_price_item])) scenario_client) = []"
  by code_simp

text \<open>
  C10, amended. An entry with no \<^verbatim>\<open>price\<close>, no \<^verbatim>\<open>totalPrice\<close> or no
  \<^verbatim>\<open>discountPrice\<close> has the discount price \<open>0\<close> and counts as free. When it is an entry
  of a catalog reply with status 200 to an authenticated client and its id is not in the
  claimed list, it is among the returned games exactly when every entry of that reply is
  well formed.
\<close>

theorem unpriced_entry_is_offered:
  assumes auth: "fst (ensure_authenticated e s)"
    and reply: "net e free_games_request = Reply 200 (Some data)"
    and entry: "item \<in> set (catalog_entries data)"
    and unpriced: "lacks_discount_price item"
    and unclaimed: "\<not> py_in (item_get item ''id'' JNull) (claimed_games s)"
  shows "discount_price item = Inr (JNum 0) \<and> is_free item \<and>
         (offer_of item \<in> set (fst (get_free_games e s)) \<longleftrightarrow>
            list_all entry_ok (catalog_entries data))"
proof -
  have zero: "discount_price item = Inr (JNum 0)"
    using unpriced by (rule lacks_discount_price_zero)
  then have free: "is_free item"
    by (simp add: is_free_def)
  have run: "fst (get_free_games e s) =
      (if list_all entry_ok (catalog_entries data)
       then spec_free_offers (claimed_games s) (catalog_entries data) else [])"
    by (rule get_free_games_entries [OF auth reply])
  have "offer_of item \<in> set (spec_free_offers (claimed_games s) (catalog_entries data))"
    using entry free unclaimed by (simp add: spec_free_offers_def)
  then have "offer_of item \<in> set (fst (get_free_games e s)) \<longleftrightarrow>
      list_all entry_ok (catalog_entries data)"
    by (simp add: run)
  with zero free show ?thesis by simp
qed

theorem unpriced_entry_is_offered_witness:
  "lacks_discount_price unpriced_item \<and>
   discount_price unpriced_item = Inr (JNum 0) \<and>
   list_all entry_ok [catalog_item ''b'' 500, unpriced_item] \<and>
   offer_of unpriced_item \<in>
     set (fst (get_free_games (answering (catalog_reply [catalog_item ''b'' 500, unpriced_item]))
            scenario_client))"
proof -
  let ?items = "[catalog_item ''b'' 500, unpriced_item]"
  have auth: "fst (ensure_authenticated (answering (catalog_reply ?items)) scenario_client)"
    by (simp add: ensure_authenticated_def is_token_expired_def answering_def
        scenario_client_def valid_client_def init_client_def)
  have reply: "net (answering (catalog_reply ?items)) free_games_request =
      Reply 200 (Some (JObj [(''data'',
        JObj [(''Catalog'', JObj [(''searchStore'',
          JObj [(''elements'', JList ?items)])])])]))"
    by (simp add: answering_def catalog_reply_def)
  have ok: "list_all entry_ok ?items"
    by (simp add: catalog_item_def unpriced_item_def entry_ok_def discount_price_def)
  have entry: "unpriced_item \<in> set (catalog_entries (JObj [(''data'',
        JObj [(''Catalog'', JObj [(''searchStore'',
          JObj [(''elements'', JList ?items)])])])]))"
    by (simp add: catalog_reply_entries)
  have unpriced: "lacks_discount_price unpriced_item"
    by (simp add: unpriced_item_def)
  have unclaimed: "\<not> py_in (item_get unpriced_item ''id'' JNull) (claimed_games scenario_client)"
    by (simp add: unpriced_item_def item_get_def scenario_client_def py_in_def)
  show ?thesis
    using unpriced_entry_is_offered [OF auth reply entry unpriced unclaimed] unpriced ok
    by (simp add: catalog_reply_entries)
qed

section \<open>Claiming a game, once and again\<close>

text \<open>
  Once the client is authenticated and the game carries its id, namespace and title, a
  claim is one request, and its result depends on the reply alone.
\<close>

lemma marks_order_complete_run:
  "marks_order_complete (Reply status (Some result)) =
     (status = 200 \<and>
      (case py_then (purchase_data result) (\<lambda>pd. py_get pd ''orderComplete'' (JBool False)) of
         Inl _ \<Rightarrow> False
       | Inr v \<Rightarrow> py_truthy v))"
proof (cases "purchase_data result")
  case (Inl err)
  then show ?thesis by (simp add: marks_order_complete_def)
next
  case (Inr pd)
  then show ?thesis
    by (cases pd) (simp_all add: marks_order_complete_def item_get_def split: option.split)
qed

lemma claim_game_authenticated:
  assumes auth: "ensure_authenticated e s = (True, s1)"
    and wf: "py_truthy (game_id g)" "py_truthy (namespace g)" "py_truthy (title g)"
  shows "claim_game e g s =
           (if marks_order_complete (net e (claim_request (game_id g) (namespace g)))
            then (True,
                  save_claimed_games e
                    (send (claim_request (game_id g) (namespace g)) s1
                       \<lparr>claimed_games := claimed_games s1 @ [game_id g]\<rparr>))
            else (False, send (claim_request (game_id g) (namespace g)) s1))"
proof (cases "net e (claim_request (game_id g) (namespace g))")
  case Raises
  then show ?thesis
    using wf by (simp add: claim_game_def auth Let_def marks_order_complete_def)
next
  case (Reply status body)
  show ?thesis
  proof (cases body)
    case None
    with Reply show ?thesis
      using wf by (simp add: claim_game_def auth Let_def marks_order_complete_def)
  next
    case (Some result)
    show ?thesis
      using wf
      by (simp add: claim_game_def auth Let_def Reply Some marks_order_complete_run send_def
          split: sum.split)
  qed
qed

lemma save_claimed_games_ledger:
  "claimed_games (save_claimed_games e s) = claimed_games s \<and>
   requests (save_claimed_games e s) = requests s"
  by (simp add: save_claimed_games_def split: write_result.split)

lemma save_claimed_games_file:
  "claimed_games_file (save_claimed_games e s) =
     (case fs_write e of
        Written \<Rightarrow> Holds (claimed_games s)
      | Open_raises \<Rightarrow> claimed_games_file s
      | Dump_raises \<Rightarrow> Truncated)"
  by (simp add: save_claimed_games_def split: write_result.split)

text \<open>What the specification calls an order marked complete, the client reads as one.\<close>

lemma states_order_complete_marks:
  "states_order_complete r \<Longrightarrow> marks_order_complete r"
  by (auto simp: states_order_complete_def marks_order_complete_def
      split: http_reply.splits option.splits sum.splits)

text \<open>
  C1, as stated, promises exactly one copy of an id in the claimed list after a second
  claim, whatever its outcome. \<^verbatim>\<open>claim_game\<close> appends to a list without looking at it:
  when the storefront completes both orders for \<^verbatim>\<open>c\<close>, the list holds \<^verbatim>\<open>c\<close> twice.
\<close>

theorem claim_game_twice_counterexample:
  "fst (claim_game (answering (order_reply (JBool True))) game_c valid_client) \<and>
   fst (claim_game (answering (order_reply (JBool True))) game_c
          (snd (claim_game (answering (order_reply (JBool True))) game_c valid_client))) \<and>
   claimed_games
     (snd (claim_game (answering (order_reply (JBool True))) game_c
             (snd (claim_game (answering (order_reply (JBool True))) game_c valid_client)))) =
     [JStr ''c'', JStr ''c'']"
  by code_simp

text \<open>
  C1, amended. An authenticated claim of a well-formed game sends the claim request
  whether or not the id is in the claimed list already. Afterwards the list is the old
  one, with the id appended once more exactly when the call returns true; so the number
  of copies of the id grows by one on success and stays on failure.
\<close>

theorem claim_game_repeated:
  assumes auth: "fst (ensure_authenticated e s)"
    and wf: "py_truthy (game_id g)" "py_truthy (namespace g)" "py_truthy (title g)"
  shows "requests (snd (claim_game e g s)) =
           requests (snd (ensure_authenticated e s)) @ [claim_request (game_id g) (namespace g)] \<and>
         claimed_games (snd (claim_game e g s)) =
           (if fst (claim_game e g s) then claimed_games s @ [game_id g] else claimed_games s) \<and>
         count_list (claimed_games (snd (claim_game e g s))) (game_id g) =
           count_list (claimed_games s) (game_id g) + (if fst (claim_game e g s) then 1 else 0)"
proof -
  obtain s1 where s1: "ensure_authenticated e s = (True, s1)"
    using auth by (cases "ensure_authenticated e s") auto
  have led: "claimed_games s1 = claimed_games s"
    using ensure_authenticated_ledger [of e s] s1 by simp
  show ?thesis
    by (simp add: claim_game_authenticated [OF s1 wf] s1 led send_def save_claimed_games_ledger)
qed

theorem claim_game_repeated_witness:
  "py_in (game_id game_c) (claimed_games owner_of_c) \<and>
   requests (snd (claim_game (answering (order_reply (JBool False))) game_c owner_of_c)) =
     [claim_request (JStr ''c'') (JStr ''ns'')] \<and>
   \<not> fst (claim_game (answering (order_reply (JBool False))) game_c owner_of_c) \<and>
   claimed_games (snd (claim_game (answering (order_reply (JBool False))) game_c owner_of_c)) =
     [JStr ''c'']"
proof -
  have auth: "ensure_authenticated (answering (order_reply (JBool False))) owner_of_c =
      (True, owner_of_c)"
    unfolding owner_of_c_def by (rule valid_client_authenticated)
  have a: "fst (ensure_authenticated (answering (order_reply (JBool False))) owner_of_c)"
    by (simp add: auth)
  have wf: "py_truthy (game_id game_c)" "py_truthy (namespace game_c)" "py_truthy (title game_c)"
    by (simp_all add: game_c_def)
  have rejected: "\<not> fst (claim_game (answering (order_reply (JBool False))) game_c owner_of_c)"
    by code_simp
  have led: "claimed_games owner_of_c = [JStr ''c'']" "requests owner_of_c = []"
    by (simp_all add: owner_of_c_def valid_client_def init_client_def)
  have gc: "game_id game_c = JStr ''c''" "namespace game_c = JStr ''ns''"
    by (simp_all add: game_c_def)
  show ?thesis
    using claim_game_repeated [OF a wf] rejected
    by (simp add: auth led gc py_in_def)
qed

text \<open>
  C2, as stated, has \<^verbatim>\<open>claim_game\<close> return true only for a reply whose
  \<^verbatim>\<open>orderComplete\<close> is true, and has the ledger persisted before it does. The
  storefront below answers with the string \<^verbatim>\<open>"false"\<close> for \<^verbatim>\<open>orderComplete\<close>, which is
  true as a Python condition, and the write of the ledger file fails after the file was
  opened. The call returns true; the list in memory holds \<^verbatim>\<open>c\<close>; the file, emptied
  when it was opened, does not.
\<close>

theorem claim_game_unsaved_counterexample:
  "fst (ensure_authenticated
          (answering (order_reply (JStr ''false''))\<lparr>fs_write := Dump_raises\<rparr>) valid_client) \<and>
   \<not> states_order_complete (order_reply (JStr ''false'')) \<and>
   fst (claim_game
          (answering (order_reply (JStr ''false''))\<lparr>fs_write := Dump_raises\<rparr>)
          game_c valid_client) \<and>
   claimed_games
     (snd (claim_game
             (answering (order_reply (JStr ''false''))\<lparr>fs_write := Dump_raises\<rparr>)
             game_c valid_client)) = [JStr ''c''] \<and>
   claimed_games_file
     (snd (claim_game
             (answering (order_reply (JStr ''false''))\<lparr>fs_write := Dump_raises\<rparr>)
             game_c valid_client)) = Truncated"
  by code_simp

text \<open>
  C2, amended. For an authenticated claim of a well-formed game, \<^verbatim>\<open>claim_game\<close>
  returns true if and only if the reply marks the order complete, \<^verbatim>\<open>orderComplete\<close>
  being read as a Python condition. On success the id is appended to the claimed list and
  the list is written to its file before the call returns; a write that fails is
  ignored, and leaves the file as it was when the file could not be opened, and
  truncated when the write failed after that. On every other outcome the call returns
  false and the list and its file are unchanged.
\<close>

theorem claim_game_outcome:
  assumes auth: "fst (ensure_authenticated e s)"
    and wf: "py_truthy (game_id g)" "py_truthy (namespace g)" "py_truthy (title g)"
  shows "fst (claim_game e g s) =
           marks_order_complete (net e (claim_request (game_id g) (namespace g))) \<and>
         (fst (claim_game e g s) \<longrightarrow>
            claimed_games (snd (claim_game e g s)) = claimed_games s @ [game_id g] \<and>
            claimed_games_file (snd (claim_game e g s)) =
              (case fs_write e of
                 Written \<Rightarrow> Holds (claimed_games s @ [game_id g])
               | Open_raises \<Rightarrow> claimed_games_file s
               | Dump_raises \<Rightarrow> Truncated)) \<and>
         (\<not> fst (claim_game e g s) \<longrightarrow>
            claimed_games (snd (claim_game e g s)) = claimed_games s \<and>
            claimed_games_file (snd (claim_game e g s)) = claimed_games_file s)"
proof -
  obtain s1 where s1: "ensure_authenticated e s = (True, s1)"
    using auth by (cases "ensure_authenticated e s") auto
  have led: "claimed_games s1 = claimed_games s" "claimed_games_file s1 = claimed_games_file s"
    using ensure_authenticated_ledger [of e s] s1 by simp_all
  show ?thesis
    by (simp add: claim_game_authenticated [OF s1 wf] led send_def
        save_claimed_games_ledger save_claimed_games_file split: write_result.split)
qed

theorem claim_game_outcome_witness:
  "fst (ensure_authenticated (answering (order_reply (JBool True))) valid_client) \<and>
   marks_order_complete
     (net (answering (order_reply (JBool True))) (claim_request (JStr ''c'') (JStr ''ns''))) \<and>
   fst (claim_game (answering (order_reply (JBool True))) game_c valid_client) \<and>
   claimed_games (snd (claim_game (answering (order_reply (JBool True))) game_c valid_client)) =
     [JStr ''c''] \<and>
   claimed_games_file (snd (claim_game (answering (order_reply (JBool True))) game_c valid_client)) =
     Holds [JStr ''c'']"
proof -
  have a: "fst (ensure_authenticated (answering (order_reply (JBool True))) valid_client)"
    by code_simp
  have wf: "py_truthy (game_id game_c)" "py_truthy (namespace game_c)" "py_truthy (title game_c)"
    by (simp_all add: game_c_def)
  have marks: "marks_order_complete
      (net (answering (order_reply (JBool True))) (claim_request (JStr ''c'') (JStr ''ns'')))"
    by (simp add: answering_def order_reply_def marks_order_complete_def purchase_data_def
        item_get_def)
  have led: "claimed_games valid_client = []"
      "fs_write (answering (order_reply (JBool True))) = Written"
    by (simp_all add: valid_client_def init_client_def answering_def)
  have gc: "game_id game_c = JStr ''c''" "namespace game_c = JStr ''ns''"
    by (simp_all add: game_c_def)
  show ?thesis
    using claim_game_outcome [OF a wf] a marks
    by (simp add: led gc)
qed

end
